theory Spec2Isabelle
  imports Main "HOL-Library.Word"
begin

unbundle bit_operations_syntax

section \<open>Dynamic interface management of an OpenSL ES object\<close>

text \<open>
  The theory embeds \<^verbatim>\<open>src/libopensles/IDynamicInterfaceManagement.c\<close>: the two
  worker handlers \<^verbatim>\<open>HandleAdd\<close> and \<^verbatim>\<open>HandleResume\<close> and the four operations of the
  interface.  The structures are records over the type \<open>'p\<close> of pointers and of
  \<^verbatim>\<open>size_t\<close> values; the functions take it to be \<open>'a word\<close>, the words of the
  platform's width, with the null pointer \<open>0\<close>, so that pointer arithmetic wraps as
  it does on the machine.  The \<^verbatim>\<open>int\<close> values \<^verbatim>\<open>MPH\<close> and \<^verbatim>\<open>index\<close>, which are
  compared with zero and index small arrays, are \<open>int\<close>.
\<close>

subsection \<open>Constants of the headers\<close>

text \<open>
  Modelled from the spec: the result codes of \<^verbatim>\<open>SLresult\<close>.  The header that gives
  them numbers is not among the sources; the code only compares them, so they are the
  constructors of a datatype (the codes of OpenSL ES 1.0.1, of which this file names
  six).
\<close>

datatype SLresult =
    SL_RESULT_SUCCESS
  | SL_RESULT_PRECONDITIONS_VIOLATED
  | SL_RESULT_PARAMETER_INVALID
  | SL_RESULT_MEMORY_FAILURE
  | SL_RESULT_RESOURCE_ERROR
  | SL_RESULT_RESOURCE_LOST
  | SL_RESULT_IO_ERROR
  | SL_RESULT_BUFFER_INSUFFICIENT
  | SL_RESULT_CONTENT_CORRUPTED
  | SL_RESULT_CONTENT_UNSUPPORTED
  | SL_RESULT_CONTENT_NOT_FOUND
  | SL_RESULT_PERMISSION_DENIED
  | SL_RESULT_FEATURE_UNSUPPORTED
  | SL_RESULT_INTERNAL_ERROR
  | SL_RESULT_UNKNOWN_ERROR
  | SL_RESULT_OPERATION_ABORTED
  | SL_RESULT_CONTROL_LOST

text \<open>
  Modelled from the spec: the ten values of a slot of \<^verbatim>\<open>mInterfaceStates\<close>
  (spec 4.1); the header defining \<^verbatim>\<open>INTERFACE_*\<close> is not among the sources.
\<close>

datatype interface_state =
    INTERFACE_UNINITIALIZED
  | INTERFACE_ADDING_1
  | INTERFACE_ADDING_1A
  | INTERFACE_ADDING_2
  | INTERFACE_ADDED
  | INTERFACE_SUSPENDED
  | INTERFACE_RESUMING_1
  | INTERFACE_RESUMING_1A
  | INTERFACE_RESUMING_2
  | INTERFACE_REMOVING

text \<open>The one event this file delivers to a registered callback.\<close>

datatype dynamic_itf_event = SL_DYNAMIC_ITF_EVENT_ASYNC_TERMINATION

text \<open>The two functions of this file that are handed to the thread pool.\<close>

datatype handler = Handler_HandleAdd | Handler_HandleResume

subsection \<open>Class table, hook table, object\<close>

text \<open>
  \<^verbatim>\<open>struct iid_vtable\<close>: only \<^verbatim>\<open>mOffset\<close> is read here.  \<^verbatim>\<open>ClassTable\<close>:
  \<^verbatim>\<open>mMPH_to_index\<close> is the array indexed by \<^verbatim>\<open>MPH\<close> (negative entry: the class
  does not declare the interface), \<^verbatim>\<open>mInterfaces\<close> the layout array,
  \<^verbatim>\<open>mInterfaceCount\<close> its length, \<^verbatim>\<open>mSize\<close> the size of an instance.
\<close>

record 'p iid_vtable =
  mOffset :: 'p

record 'p ClassTable =
  mMPH_to_index :: "int \<Rightarrow> int"
  mInterfaces :: "'p iid_vtable list"
  mInterfaceCount :: nat
  mSize :: 'p

text \<open>An entry of \<^verbatim>\<open>MPH_init_table\<close>: three hooks, each a function pointer or null.\<close>

record 'p MPH_init =
  mInit :: 'p
  mResume :: 'p
  mDeinit :: 'p

text \<open>
  What the code does to the world outside its own variables, in program order.  Every
  entry of the trace carries the value of the mutex count once the action has happened.
  \<^item> \<open>Lock\<close>, \<open>Unlock\<close>: \<^verbatim>\<open>object_lock_exclusive\<close>, \<^verbatim>\<open>object_unlock_exclusive\<close>;
  \<^item> \<open>Store_state index v\<close>: \<^verbatim>\<open>*interfaceStateP = v\<close>;
  \<^item> \<open>Store_mask v\<close>: \<^verbatim>\<open>thisObject->mGottenMask\<close> becomes \<open>v\<close>;
  \<^item> \<open>Memset p c n\<close>: \<^verbatim>\<open>memset(p, c, n)\<close>;
  \<^item> \<open>Store_this p q\<close>: \<^verbatim>\<open>((void **) p)[1] = q\<close>;
  \<^item> \<open>Hook f p\<close>: \<^verbatim>\<open>(*f)(p)\<close> for a hook of \<^verbatim>\<open>MPH_init_table\<close>;
  \<^item> \<open>Pool_add h self MPH r\<close>: \<^verbatim>\<open>ThreadPool_add(pool, h, self, MPH)\<close> returned \<open>r\<close>;
  \<^item> \<open>Callback f caller context event result MPH\<close>:
    \<^verbatim>\<open>(*f)(caller, context, event, result, &SL_IID_array[MPH])\<close>.
\<close>

datatype 'p action =
    Lock
  | Unlock
  | Store_state nat interface_state
  | Store_mask "32 word"
  | Memset 'p "8 word" 'p
  | Store_this 'p 'p
  | Hook 'p 'p
  | Pool_add handler 'p int SLresult
  | Callback 'p 'p 'p dynamic_itf_event SLresult int

text \<open>
  The memory the code reads and writes.  \<^verbatim>\<open>mThis\<close>, \<^verbatim>\<open>mCallback\<close> and
  \<^verbatim>\<open>mContext\<close> are the fields of the \<^verbatim>\<open>IDynamicInterfaceManagement\<close> structure
  (\<^verbatim>\<open>mThis\<close> is the address of the owning object), \<^verbatim>\<open>mClass\<close>,
  \<^verbatim>\<open>mInterfaceStates\<close> and \<^verbatim>\<open>mGottenMask\<close> those of the \<^verbatim>\<open>IObject\<close>; \<open>mutex\<close> is
  the lock of the object and \<open>trace\<close> the actions so far.
\<close>

record 'p world =
  mThis :: 'p
  mCallback :: 'p
  mContext :: 'p
  mClass :: "'p ClassTable"
  mInterfaceStates :: "interface_state list"
  mGottenMask :: "32 word"
  mutex :: int
  trace :: "(int \<times> 'p action) list"

text \<open>
  What the file takes from the rest of the library.  \<^verbatim>\<open>NDEBUG\<close> is the build's macro:
  with it \<^verbatim>\<open>assert\<close> is empty and \<^verbatim>\<open>RemoveInterface\<close> does not fill the removed
  region; \<^verbatim>\<open>MPH_MAX\<close>, \<^verbatim>\<open>IID_to_MPH\<close> and \<^verbatim>\<open>MPH_init_table\<close> are the library's
  tables.

  \<^verbatim>\<open>ThreadPool_add\<close> is called with the mutex released, and the code looks at the slot
  again when it has failed (``operation aborted while mutex unlocked''): given the
  closure and the slot states at the call, the parameter yields the result code and the
  slot states as the other threads have left them when the call returns.
\<close>

record 'p externals =
  NDEBUG :: bool
  MPH_MAX :: int
  IID_to_MPH :: "'p \<Rightarrow> int"
  MPH_init_table :: "int \<Rightarrow> 'p MPH_init"
  ThreadPool_add :: "handler \<Rightarrow> 'p \<Rightarrow> int \<Rightarrow> interface_state list
    \<Rightarrow> SLresult \<times> interface_state list"

text \<open>
  A failed \<^verbatim>\<open>assert\<close> ends the process.  The value keeps the world as it is when the
  assertion fails: what has been stored and called up to there, and the count of the
  mutex.
\<close>

datatype 'p abort = Assertion_failed "'p world"

subsection \<open>Primitive steps\<close>

text \<open>An action enters the trace with the count of the mutex at that moment.\<close>

definition emit :: "'p action \<Rightarrow> 'p world \<Rightarrow> 'p world" where
  "emit a s = s\<lparr>trace := trace s @ [(mutex s, a)]\<rparr>"

text \<open>
  Modelled from the spec: \<^verbatim>\<open>object_lock_exclusive\<close> and \<^verbatim>\<open>object_unlock_exclusive\<close>,
  the lock and unlock primitives of the object, which are not among the sources.
  \<open>mutex\<close> counts the calls of the first minus the calls of the second: 0 is free, 1 is
  held, a negative count has been released more often than taken.
\<close>

definition object_lock_exclusive :: "'p world \<Rightarrow> 'p world" where
  "object_lock_exclusive s = emit Lock (s\<lparr>mutex := mutex s + 1\<rparr>)"

definition object_unlock_exclusive :: "'p world \<Rightarrow> 'p world" where
  "object_unlock_exclusive s = emit Unlock (s\<lparr>mutex := mutex s - 1\<rparr>)"

text \<open>\<^verbatim>\<open>*interfaceStateP = v\<close> with \<^verbatim>\<open>interfaceStateP = &mInterfaceStates[index]\<close>.\<close>

definition store_state :: "nat \<Rightarrow> interface_state \<Rightarrow> 'p world \<Rightarrow> 'p world" where
  "store_state index v s =
     emit (Store_state index v) (s\<lparr>mInterfaceStates := (mInterfaceStates s)[index := v]\<rparr>)"

text \<open>
  \<^verbatim>\<open>thisObject->mGottenMask &= ~(1 << index)\<close>, in the 32 bits of the mask.  The shift
  of the source has a meaning only for an index below 32, and the definition is the
  code for such an index only: every statement about the mask below takes a slot below
  32.
\<close>

definition clear_gotten :: "nat \<Rightarrow> 'p world \<Rightarrow> 'p world" where
  "clear_gotten index s =
     emit (Store_mask (mGottenMask s AND NOT (push_bit index 1)))
       (s\<lparr>mGottenMask := mGottenMask s AND NOT (push_bit index 1)\<rparr>)"

text \<open>\<^verbatim>\<open>if (NULL != hook) (*hook)(thisItf)\<close>; what the hook does is not this file's.\<close>

definition call_hook :: "('a::len) word \<Rightarrow> 'a word \<Rightarrow> 'a word world \<Rightarrow> 'a word world" where
  "call_hook hook thisItf s = (if hook \<noteq> 0 then emit (Hook hook thisItf) s else s)"

text \<open>\<^verbatim>\<open>assert(c)\<close> stops the run when the build has assertions and \<open>c\<close> is false.\<close>

definition assert_fails :: "'p externals \<Rightarrow> bool \<Rightarrow> bool" where
  "assert_fails ext c = (\<not> NDEBUG ext \<and> \<not> c)"

text \<open>
  The size of the region of the interface at \<open>index\<close>, as the source computes it in
  three places:
  \<^verbatim>\<open>((SLuint32) (index + 1) == class__->mInterfaceCount ? class__->mSize : x[1].mOffset) - offset\<close>.
\<close>

definition itf_size :: "('a::len) word ClassTable \<Rightarrow> nat \<Rightarrow> 'a word" where
  "itf_size cls index =
     (if index + 1 = mInterfaceCount cls then mSize cls
      else mOffset (mInterfaces cls ! (index + 1))) - mOffset (mInterfaces cls ! index)"

text \<open>The call of \<^verbatim>\<open>ThreadPool_add\<close>, in the window where the mutex is released.\<close>

definition pool_add ::
  "'p externals \<Rightarrow> handler \<Rightarrow> 'p \<Rightarrow> int \<Rightarrow> 'p world \<Rightarrow> SLresult \<times> 'p world" where
  "pool_add ext h self MPH s =
     (let (result, states) = ThreadPool_add ext h self MPH (mInterfaceStates s)
      in (result, emit (Pool_add h self MPH result) (s\<lparr>mInterfaceStates := states\<rparr>)))"

subsection \<open>The worker handlers\<close>

text \<open>
  \<^verbatim>\<open>HandleAdd(self, MPH)\<close>, lines 24 to 97.  The inner \<open>case\<close> is the \<^verbatim>\<open>switch\<close>: it
  yields \<^verbatim>\<open>result\<close>, the local \<^verbatim>\<open>state\<close> and the world with the mutex held; what
  follows it is the common tail of the function.
\<close>

definition HandleAdd ::
  "('a::len) word externals \<Rightarrow> 'a word \<Rightarrow> int \<Rightarrow> 'a word world \<Rightarrow> 'a word abort + 'a word world" where
  "HandleAdd ext self MPH s =
    (let thisObject = mThis s;
         cls = mClass s;
         index = mMPH_to_index cls MPH
     in
     if assert_fails ext (self \<noteq> 0) \<or> assert_fails ext (thisObject \<noteq> 0)
        \<or> assert_fails ext (0 \<le> MPH \<and> MPH < MPH_MAX ext)
        \<or> assert_fails ext (0 \<le> index \<and> index < int (mInterfaceCount cls))
     then Inl (Assertion_failed s)
     else
       let i = nat index;
           s = object_lock_exclusive s;
           state = mInterfaceStates s ! i
       in
       (case
          (case state of
             INTERFACE_ADDING_1 \<Rightarrow>
               let s = store_state i INTERFACE_ADDING_2 s;
                   s = object_unlock_exclusive s;
                   offset = mOffset (mInterfaces cls ! i);
                   thisItf = thisObject + offset;
                   size = itf_size cls i;
                   s = emit (Memset thisItf 0 size) s;
                   s = emit (Store_this thisItf thisObject) s;
                   s = call_hook (mInit (MPH_init_table ext MPH)) thisItf s;
                   s = object_lock_exclusive s
               in if assert_fails ext (mInterfaceStates s ! i = INTERFACE_ADDING_2)
                  then Inl (Assertion_failed s)
                  else Inr (SL_RESULT_SUCCESS, INTERFACE_ADDED, s)
           | INTERFACE_ADDING_1A \<Rightarrow>
               Inr (SL_RESULT_OPERATION_ABORTED, INTERFACE_UNINITIALIZED, s)
           | _ \<Rightarrow>
               if assert_fails ext False then Inl (Assertion_failed s)
               else Inr (SL_RESULT_INTERNAL_ERROR, state, s))
        of Inl a \<Rightarrow> Inl a
         | Inr (result, state', s) \<Rightarrow>
             let s = store_state i state' s;
                 callback = mCallback s;
                 ctxt = mContext s;
                 s = object_unlock_exclusive s
             in Inr (if callback \<noteq> 0
                     then emit (Callback callback self ctxt
                                  SL_DYNAMIC_ITF_EVENT_ASYNC_TERMINATION result MPH) s
                     else s)))"

text \<open>\<^verbatim>\<open>HandleResume(self, MPH)\<close>, lines 244 to 312.\<close>

definition HandleResume ::
  "('a::len) word externals \<Rightarrow> 'a word \<Rightarrow> int \<Rightarrow> 'a word world \<Rightarrow> 'a word abort + 'a word world" where
  "HandleResume ext self MPH s =
    (let thisObject = mThis s;
         cls = mClass s;
         index = mMPH_to_index cls MPH
     in
     if assert_fails ext (self \<noteq> 0) \<or> assert_fails ext (thisObject \<noteq> 0)
        \<or> assert_fails ext (0 \<le> MPH \<and> MPH < MPH_MAX ext)
        \<or> assert_fails ext (0 \<le> index \<and> index < int (mInterfaceCount cls))
     then Inl (Assertion_failed s)
     else
       let i = nat index;
           s = object_lock_exclusive s;
           state = mInterfaceStates s ! i
       in
       (case
          (case state of
             INTERFACE_RESUMING_1 \<Rightarrow>
               let s = store_state i INTERFACE_RESUMING_2 s;
                   s = object_unlock_exclusive s;
                   offset = mOffset (mInterfaces cls ! i);
                   thisItf = thisObject + offset;
                   s = call_hook (mResume (MPH_init_table ext MPH)) thisItf s;
                   s = object_lock_exclusive s
               in if assert_fails ext (mInterfaceStates s ! i = INTERFACE_RESUMING_2)
                  then Inl (Assertion_failed s)
                  else Inr (SL_RESULT_SUCCESS, INTERFACE_ADDED, s)
           | INTERFACE_RESUMING_1A \<Rightarrow>
               Inr (SL_RESULT_OPERATION_ABORTED, INTERFACE_SUSPENDED, s)
           | _ \<Rightarrow>
               if assert_fails ext False then Inl (Assertion_failed s)
               else Inr (SL_RESULT_INTERNAL_ERROR, state, s))
        of Inl a \<Rightarrow> Inl a
         | Inr (result, state', s) \<Rightarrow>
             let s = store_state i state' s;
                 callback = mCallback s;
                 ctxt = mContext s;
                 s = object_unlock_exclusive s
             in Inr (if callback \<noteq> 0
                     then emit (Callback callback self ctxt
                                  SL_DYNAMIC_ITF_EVENT_ASYNC_TERMINATION result MPH) s
                     else s)))"

subsection \<open>The operations of the interface\<close>

text \<open>
  \<^verbatim>\<open>IDynamicInterfaceManagement_AddInterface(self, iid, async)\<close>, lines 99 to 177.
  The \<open>case\<close> on the slot is the \<^verbatim>\<open>switch\<close>; the \<^verbatim>\<open>object_unlock_exclusive\<close> of
  line 175 follows it on every path.
\<close>

definition IDynamicInterfaceManagement_AddInterface ::
  "('a::len) word externals \<Rightarrow> 'a word \<Rightarrow> 'a word \<Rightarrow> bool \<Rightarrow> 'a word world
     \<Rightarrow> 'a word abort + (SLresult \<times> 'a word world)" where
  "IDynamicInterfaceManagement_AddInterface ext self iid async s =
    (if iid = 0 then Inr (SL_RESULT_PARAMETER_INVALID, s)
     else
       let thisObject = mThis s;
           cls = mClass s;
           MPH = IID_to_MPH ext iid
       in
       if 0 > MPH \<or> 0 > mMPH_to_index cls MPH then Inr (SL_RESULT_FEATURE_UNSUPPORTED, s)
       else
         let index = mMPH_to_index cls MPH in
         if assert_fails ext (index < int (mInterfaceCount cls)) then Inl (Assertion_failed s)
         else
           let i = nat index;
               s = object_lock_exclusive s
           in
           (case
              (case mInterfaceStates s ! i of
                 INTERFACE_UNINITIALIZED \<Rightarrow>
                   if async then
                     let s = store_state i INTERFACE_ADDING_1 s;
                         s = object_unlock_exclusive s;
                         (result, s) = pool_add ext Handler_HandleAdd self MPH s
                     in
                     if SL_RESULT_SUCCESS \<noteq> result then
                       let s = object_lock_exclusive s in
                       (case mInterfaceStates s ! i of
                          INTERFACE_ADDING_1 \<Rightarrow>
                            Inr (result, store_state i INTERFACE_UNINITIALIZED s)
                        | INTERFACE_ADDING_1A \<Rightarrow>
                            Inr (result, store_state i INTERFACE_UNINITIALIZED s)
                        | _ \<Rightarrow> Inr (result, s))
                     else Inr (result, s)
                   else
                     let s = store_state i INTERFACE_ADDING_2 s;
                         s = object_unlock_exclusive s;
                         offset = mOffset (mInterfaces cls ! i);
                         size = itf_size cls i;
                         thisItf = thisObject + offset;
                         s = emit (Memset thisItf 0 size) s;
                         s = emit (Store_this thisItf thisObject) s;
                         s = call_hook (mInit (MPH_init_table ext MPH)) thisItf s;
                         s = object_lock_exclusive s
                     in if assert_fails ext (mInterfaceStates s ! i = INTERFACE_ADDING_2)
                        then Inl (Assertion_failed s)
                        else Inr (SL_RESULT_SUCCESS, store_state i INTERFACE_ADDED s)
               | _ \<Rightarrow> Inr (SL_RESULT_PRECONDITIONS_VIOLATED, s))
            of Inl a \<Rightarrow> Inl a
             | Inr (result, s) \<Rightarrow> Inr (result, object_unlock_exclusive s)))"

text \<open>
  \<^verbatim>\<open>IDynamicInterfaceManagement_RemoveInterface(self, iid)\<close>, lines 179 to 239.
  \<open>removing\<close> is the block of the two normal cases.
\<close>

definition IDynamicInterfaceManagement_RemoveInterface ::
  "('a::len) word externals \<Rightarrow> 'a word \<Rightarrow> 'a word \<Rightarrow> 'a word world
     \<Rightarrow> 'a word abort + (SLresult \<times> 'a word world)" where
  "IDynamicInterfaceManagement_RemoveInterface ext self iid s =
    (if iid = 0 then Inr (SL_RESULT_PARAMETER_INVALID, s)
     else
       let thisObject = mThis s;
           cls = mClass s;
           MPH = IID_to_MPH ext iid
       in
       if 0 > MPH \<or> 0 > mMPH_to_index cls MPH then Inr (SL_RESULT_PRECONDITIONS_VIOLATED, s)
       else
         let index = mMPH_to_index cls MPH;
             i = nat index;
             s = object_lock_exclusive s;
             removing =
               (let s = store_state i INTERFACE_REMOVING s;
                    s = clear_gotten i s;
                    s = object_unlock_exclusive s;
                    offset = mOffset (mInterfaces cls ! i);
                    thisItf = thisObject + offset;
                    s = call_hook (mDeinit (MPH_init_table ext MPH)) thisItf s;
                    s = (if NDEBUG ext then s
                         else emit (Memset thisItf 0x55 (itf_size cls i)) s);
                    s = object_lock_exclusive s
                in if assert_fails ext (mInterfaceStates s ! i = INTERFACE_REMOVING)
                   then Inl (Assertion_failed s)
                   else Inr (SL_RESULT_SUCCESS, store_state i INTERFACE_UNINITIALIZED s))
         in
         (case
            (case mInterfaceStates s ! i of
               INTERFACE_ADDED \<Rightarrow> removing
             | INTERFACE_SUSPENDED \<Rightarrow> removing
             | _ \<Rightarrow> Inr (SL_RESULT_PRECONDITIONS_VIOLATED, s))
          of Inl a \<Rightarrow> Inl a
           | Inr (result, s) \<Rightarrow> Inr (result, object_unlock_exclusive s)))"

text \<open>
  \<^verbatim>\<open>IDynamicInterfaceManagement_ResumeInterface(self, iid, async)\<close>, lines 314 to 388.
  In the synchronous branch line 365 reads \<^verbatim>\<open>(char *) this + offset\<close>, and \<^verbatim>\<open>this\<close>
  is \<open>self\<close>; the \<^verbatim>\<open>default\<close> case calls \<^verbatim>\<open>object_unlock_exclusive\<close> itself
  (line 381) before the call of line 386 that follows the \<^verbatim>\<open>switch\<close>.
\<close>

definition IDynamicInterfaceManagement_ResumeInterface ::
  "('a::len) word externals \<Rightarrow> 'a word \<Rightarrow> 'a word \<Rightarrow> bool \<Rightarrow> 'a word world
     \<Rightarrow> 'a word abort + (SLresult \<times> 'a word world)" where
  "IDynamicInterfaceManagement_ResumeInterface ext self iid async s =
    (if iid = 0 then Inr (SL_RESULT_PARAMETER_INVALID, s)
     else
       let cls = mClass s;
           MPH = IID_to_MPH ext iid
       in
       if 0 > MPH \<or> 0 > mMPH_to_index cls MPH then Inr (SL_RESULT_PRECONDITIONS_VIOLATED, s)
       else
         let index = mMPH_to_index cls MPH in
         if assert_fails ext (index < int (mInterfaceCount cls)) then Inl (Assertion_failed s)
         else
           let i = nat index;
               s = object_lock_exclusive s
           in
           (case
              (case mInterfaceStates s ! i of
                 INTERFACE_SUSPENDED \<Rightarrow>
                   if async then
                     let s = store_state i INTERFACE_RESUMING_1 s;
                         s = object_unlock_exclusive s;
                         (result, s) = pool_add ext Handler_HandleResume self MPH s
                     in
                     if SL_RESULT_SUCCESS \<noteq> result then
                       let s = object_lock_exclusive s in
                       (case mInterfaceStates s ! i of
                          INTERFACE_RESUMING_1 \<Rightarrow>
                            Inr (result, store_state i INTERFACE_SUSPENDED s)
                        | INTERFACE_RESUMING_1A \<Rightarrow>
                            Inr (result, store_state i INTERFACE_SUSPENDED s)
                        | _ \<Rightarrow> Inr (result, s))
                     else Inr (result, s)
                   else
                     let s = store_state i INTERFACE_RESUMING_2 s;
                         s = object_unlock_exclusive s;
                         offset = mOffset (mInterfaces cls ! i);
                         thisItf = self + offset;
                         s = call_hook (mResume (MPH_init_table ext MPH)) thisItf s;
                         s = object_lock_exclusive s
                     in if assert_fails ext (mInterfaceStates s ! i = INTERFACE_RESUMING_2)
                        then Inl (Assertion_failed s)
                        else Inr (SL_RESULT_SUCCESS, store_state i INTERFACE_ADDED s)
               | _ \<Rightarrow>
                   let s = object_unlock_exclusive s
                   in Inr (SL_RESULT_PRECONDITIONS_VIOLATED, s))
            of Inl a \<Rightarrow> Inl a
             | Inr (result, s) \<Rightarrow> Inr (result, object_unlock_exclusive s)))"

text \<open>\<^verbatim>\<open>IDynamicInterfaceManagement_RegisterCallback\<close>, lines 390 to 400.\<close>

definition IDynamicInterfaceManagement_RegisterCallback ::
  "('a::len) word \<Rightarrow> 'a word \<Rightarrow> 'a word \<Rightarrow> 'a word world \<Rightarrow> SLresult \<times> 'a word world" where
  "IDynamicInterfaceManagement_RegisterCallback self callback pContext s =
    (let s = object_lock_exclusive s;
         s = s\<lparr>mCallback := callback\<rparr>;
         s = s\<lparr>mContext := pContext\<rparr>;
         s = object_unlock_exclusive s
     in (SL_RESULT_SUCCESS, s))"

subsection \<open>Slots and identifiers\<close>

text \<open>
  The class of the object declares the interface \<open>MPH\<close> at slot \<open>i\<close>: the entry of
  \<^verbatim>\<open>mMPH_to_index\<close> is \<open>i\<close>, below \<^verbatim>\<open>mInterfaceCount\<close> and inside the array
  \<^verbatim>\<open>mInterfaceStates\<close>.
\<close>

definition declared :: "'p world \<Rightarrow> int \<Rightarrow> nat \<Rightarrow> bool" where
  "declared s MPH i =
     (mMPH_to_index (mClass s) MPH = int i \<and> i < mInterfaceCount (mClass s)
      \<and> i < length (mInterfaceStates s))"

text \<open>The identifier \<open>iid\<close> is not null and resolves to the slot \<open>i\<close> through \<open>MPH\<close>.\<close>

definition resolves ::
  "('a::len) word externals \<Rightarrow> 'a word world \<Rightarrow> 'a word \<Rightarrow> int \<Rightarrow> nat \<Rightarrow> bool" where
  "resolves ext s iid MPH i =
     (iid \<noteq> 0 \<and> IID_to_MPH ext iid = MPH \<and> 0 \<le> MPH \<and> declared s MPH i)"

subsection \<open>A concrete object\<close>

text \<open>
  A class of three interfaces on a 32-bit platform: the object itself at offset 0, the
  dynamic interface management at offset 64 (\<open>MPH\<close> 3), and one dynamic interface at
  offset 96 (\<open>MPH\<close> 7) with all three hooks; an instance takes 160 bytes.  The object
  lies at \<open>0x1000\<close>, so its dynamic interface management structure is at \<open>0x1040\<close> and
  the region of the third interface at \<open>0x1060\<close>.  A callback is registered.  The
  identifier \<open>0x5009\<close> is known to the library (\<open>MPH\<close> 9) and not declared by the class.
  \<open>example_ext ndebug r st\<close> is a library whose pool answers \<open>r\<close> while another thread
  leaves slot 2 in state \<open>st\<close>.
\<close>

definition example_class :: "32 word ClassTable" where
  "example_class =
     \<lparr>mMPH_to_index = (\<lambda>m. if m = 0 then 0 else if m = 3 then 1 else if m = 7 then 2 else - 1),
      mInterfaces = [\<lparr>mOffset = 0\<rparr>, \<lparr>mOffset = 64\<rparr>, \<lparr>mOffset = 96\<rparr>],
      mInterfaceCount = 3,
      mSize = 160\<rparr>"

definition example_ext :: "bool \<Rightarrow> SLresult \<Rightarrow> interface_state \<Rightarrow> 32 word externals" where
  "example_ext ndebug r st =
     \<lparr>NDEBUG = ndebug,
      MPH_MAX = 10,
      IID_to_MPH = (\<lambda>iid. if iid = 0x5000 then 0 else if iid = 0x5003 then 3
                            else if iid = 0x5007 then 7 else if iid = 0x5009 then 9 else - 1),
      MPH_init_table =
        (\<lambda>m. if m = 7 then \<lparr>mInit = 0x7001, mResume = 0x7002, mDeinit = 0x7003\<rparr>
              else \<lparr>mInit = 0, mResume = 0, mDeinit = 0\<rparr>),
      ThreadPool_add = (\<lambda>h self MPH states. (r, states[2 := st]))\<rparr>"

definition example_world :: "interface_state \<Rightarrow> 32 word world" where
  "example_world st =
     \<lparr>mThis = 0x1000, mCallback = 0x9000, mContext = 0x9100, mClass = example_class,
      mInterfaceStates = [INTERFACE_ADDED, INTERFACE_ADDED, st],
      mGottenMask = 7, mutex = 0, trace = []\<rparr>"

section \<open>Properties\<close>

lemmas steps = emit_def object_lock_exclusive_def object_unlock_exclusive_def store_state_def
  clear_gotten_def call_hook_def assert_fails_def pool_add_def

lemmas examples = example_world_def example_ext_def example_class_def declared_def
  resolves_def itf_size_def

subsection \<open>Runs of the operations\<close>

text \<open>
  The complete effect of each normal path, for a caller that does not hold the mutex.
  The theorems of the next subsections read their claims off these equations.
\<close>

lemma AddInterface_sync_run:
  assumes "resolves ext s iid MPH i" and "mInterfaceStates s ! i = INTERFACE_UNINITIALIZED"
    and "mutex s = 0"
  shows "IDynamicInterfaceManagement_AddInterface ext self iid False s =
    Inr (SL_RESULT_SUCCESS,
         s\<lparr>mInterfaceStates := (mInterfaceStates s)[i := INTERFACE_ADDED],
           trace := trace s @
             [(1, Lock), (1, Store_state i INTERFACE_ADDING_2), (0, Unlock),
              (0, Memset (mThis s + mOffset (mInterfaces (mClass s) ! i)) 0
                    (itf_size (mClass s) i)),
              (0, Store_this (mThis s + mOffset (mInterfaces (mClass s) ! i)) (mThis s))] @
             (if mInit (MPH_init_table ext MPH) \<noteq> 0
              then [(0, Hook (mInit (MPH_init_table ext MPH))
                          (mThis s + mOffset (mInterfaces (mClass s) ! i)))]
              else []) @
             [(1, Lock), (1, Store_state i INTERFACE_ADDED), (0, Unlock)]\<rparr>)"
  using assms
  unfolding IDynamicInterfaceManagement_AddInterface_def Let_def resolves_def declared_def
  by (simp add: steps)

lemma RemoveInterface_run:
  assumes "resolves ext s iid MPH i"
    and "mInterfaceStates s ! i = INTERFACE_ADDED \<or> mInterfaceStates s ! i = INTERFACE_SUSPENDED"
    and "mutex s = 0" and "i < 32"
  shows "IDynamicInterfaceManagement_RemoveInterface ext self iid s =
    Inr (SL_RESULT_SUCCESS,
         s\<lparr>mInterfaceStates := (mInterfaceStates s)[i := INTERFACE_UNINITIALIZED],
           mGottenMask := mGottenMask s AND NOT (push_bit i 1),
           trace := trace s @
             [(1, Lock), (1, Store_state i INTERFACE_REMOVING),
              (1, Store_mask (mGottenMask s AND NOT (push_bit i 1))), (0, Unlock)] @
             (if mDeinit (MPH_init_table ext MPH) \<noteq> 0
              then [(0, Hook (mDeinit (MPH_init_table ext MPH))
                          (mThis s + mOffset (mInterfaces (mClass s) ! i)))]
              else []) @
             (if NDEBUG ext then []
              else [(0, Memset (mThis s + mOffset (mInterfaces (mClass s) ! i)) 0x55
                          (itf_size (mClass s) i))]) @
             [(1, Lock), (1, Store_state i INTERFACE_UNINITIALIZED), (0, Unlock)]\<rparr>)"
  using assms
  unfolding IDynamicInterfaceManagement_RemoveInterface_def Let_def resolves_def declared_def
  by (auto simp add: steps)

lemma ResumeInterface_sync_run:
  assumes "resolves ext s iid MPH i" and "mInterfaceStates s ! i = INTERFACE_SUSPENDED"
    and "mutex s = 0"
  shows "IDynamicInterfaceManagement_ResumeInterface ext self iid False s =
    Inr (SL_RESULT_SUCCESS,
         s\<lparr>mInterfaceStates := (mInterfaceStates s)[i := INTERFACE_ADDED],
           trace := trace s @
             [(1, Lock), (1, Store_state i INTERFACE_RESUMING_2), (0, Unlock)] @
             (if mResume (MPH_init_table ext MPH) \<noteq> 0
              then [(0, Hook (mResume (MPH_init_table ext MPH))
                          (self + mOffset (mInterfaces (mClass s) ! i)))]
              else []) @
             [(1, Lock), (1, Store_state i INTERFACE_ADDED), (0, Unlock)]\<rparr>)"
  using assms
  unfolding IDynamicInterfaceManagement_ResumeInterface_def Let_def resolves_def declared_def
  by (simp add: steps)

text \<open>
  A slot outside the states an operation starts from: \<^verbatim>\<open>AddInterface\<close> and
  \<^verbatim>\<open>RemoveInterface\<close> take the mutex, release it once and change nothing else;
  \<^verbatim>\<open>ResumeInterface\<close> releases it twice.
\<close>

lemma AddInterface_rejected:
  assumes "resolves ext s iid MPH i" and "mInterfaceStates s ! i \<noteq> INTERFACE_UNINITIALIZED"
    and "mutex s = 0"
  shows "IDynamicInterfaceManagement_AddInterface ext self iid async s =
    Inr (SL_RESULT_PRECONDITIONS_VIOLATED, s\<lparr>trace := trace s @ [(1, Lock), (0, Unlock)]\<rparr>)"
  using assms
  unfolding IDynamicInterfaceManagement_AddInterface_def Let_def resolves_def declared_def
  by (cases "mInterfaceStates s ! i"; simp add: steps)

lemma RemoveInterface_rejected:
  assumes "resolves ext s iid MPH i" and "mInterfaceStates s ! i \<noteq> INTERFACE_ADDED"
    and "mInterfaceStates s ! i \<noteq> INTERFACE_SUSPENDED" and "mutex s = 0"
  shows "IDynamicInterfaceManagement_RemoveInterface ext self iid s =
    Inr (SL_RESULT_PRECONDITIONS_VIOLATED, s\<lparr>trace := trace s @ [(1, Lock), (0, Unlock)]\<rparr>)"
  using assms
  unfolding IDynamicInterfaceManagement_RemoveInterface_def Let_def resolves_def declared_def
  by (cases "mInterfaceStates s ! i"; simp add: steps)

lemma ResumeInterface_rejected:
  assumes "resolves ext s iid MPH i" and "mInterfaceStates s ! i \<noteq> INTERFACE_SUSPENDED"
    and "mutex s = 0"
  shows "IDynamicInterfaceManagement_ResumeInterface ext self iid async s =
    Inr (SL_RESULT_PRECONDITIONS_VIOLATED,
         s\<lparr>mutex := - 1, trace := trace s @ [(1, Lock), (0, Unlock), (- 1, Unlock)]\<rparr>)"
  using assms
  unfolding IDynamicInterfaceManagement_ResumeInterface_def Let_def resolves_def declared_def
  by (cases "mInterfaceStates s ! i"; simp add: steps)

text \<open>\<^verbatim>\<open>RegisterCallback\<close> replaces the callback and its context under the mutex.\<close>

lemma RegisterCallback_run:
  assumes "mutex s = 0"
  shows "IDynamicInterfaceManagement_RegisterCallback self callback pContext s =
    (SL_RESULT_SUCCESS,
     s\<lparr>mCallback := callback, mContext := pContext,
       trace := trace s @ [(1, Lock), (0, Unlock)]\<rparr>)"
  using assms
  unfolding IDynamicInterfaceManagement_RegisterCallback_def Let_def
  by (simp add: steps)

lemma list_update_same: "xs ! i = v \<Longrightarrow> xs[i := v] = xs"
  by (metis list_update_id)

lemma gotten_bit_cleared: "\<not> bit (m AND NOT (push_bit i 1) :: 32 word) i"
  by (simp add: bit_simps)

subsection \<open>The worker handler of an asynchronous add\<close>



text \<open>
  C5: when \<^verbatim>\<open>HandleAdd\<close> finds the slot in \<^verbatim>\<open>INTERFACE_ADDING_1A\<close> (cancelled while
  queued) it calls no hook and touches no memory of the interface, stores
  \<^verbatim>\<open>INTERFACE_UNINITIALIZED\<close>, and calls the registered callback, if any, with the
  result \<^verbatim>\<open>SL_RESULT_OPERATION_ABORTED\<close>.
\<close>

theorem HandleAdd_aborted_case:
  assumes "self \<noteq> 0" and "mThis s \<noteq> 0" and "0 \<le> MPH" and "MPH < MPH_MAX ext"
    and "declared s MPH i" and "mInterfaceStates s ! i = INTERFACE_ADDING_1A" and "mutex s = 0"
  shows "HandleAdd ext self MPH s =
    Inr (s\<lparr>mInterfaceStates := (mInterfaceStates s)[i := INTERFACE_UNINITIALIZED],
           trace := trace s @
             [(1, Lock), (1, Store_state i INTERFACE_UNINITIALIZED), (0, Unlock)] @
             (if mCallback s \<noteq> 0
              then [(0, Callback (mCallback s) self (mContext s)
                          SL_DYNAMIC_ITF_EVENT_ASYNC_TERMINATION SL_RESULT_OPERATION_ABORTED MPH)]
              else [])\<rparr>)"
  using assms unfolding HandleAdd_def Let_def declared_def
  by (simp add: steps)

theorem HandleAdd_aborted_case_witness:
  "(0x1040 :: 32 word) \<noteq> 0 \<and> mThis (example_world INTERFACE_ADDING_1A) \<noteq> 0
   \<and> (0::int) \<le> 7 \<and> 7 < MPH_MAX (example_ext False SL_RESULT_SUCCESS INTERFACE_ADDING_1A)
   \<and> declared (example_world INTERFACE_ADDING_1A) 7 2
   \<and> mInterfaceStates (example_world INTERFACE_ADDING_1A) ! 2 = INTERFACE_ADDING_1A
   \<and> mutex (example_world INTERFACE_ADDING_1A) = 0
   \<and> HandleAdd (example_ext False SL_RESULT_SUCCESS INTERFACE_ADDING_1A) 0x1040 7
        (example_world INTERFACE_ADDING_1A) =
      Inr ((example_world INTERFACE_UNINITIALIZED)
            \<lparr>trace :=
               [(1, Lock), (1, Store_state 2 INTERFACE_UNINITIALIZED), (0, Unlock),
                (0, Callback 0x9000 0x1040 0x9100
                      SL_DYNAMIC_ITF_EVENT_ASYNC_TERMINATION SL_RESULT_OPERATION_ABORTED 7)]\<rparr>)"
  using HandleAdd_aborted_case [of "0x1040" "example_world INTERFACE_ADDING_1A" 7
      "example_ext False SL_RESULT_SUCCESS INTERFACE_ADDING_1A" 2]
  by (simp add: examples)

subsection \<open>A slot the handlers do not expect\<close>

text \<open>
  C10, as the code has it: when \<^verbatim>\<open>HandleAdd\<close> (\<^verbatim>\<open>HandleResume\<close>) finds the slot in a
  state other than \<^verbatim>\<open>INTERFACE_ADDING_1\<close>, \<^verbatim>\<open>INTERFACE_ADDING_1A\<close>
  (\<^verbatim>\<open>INTERFACE_RESUMING_1\<close>, \<^verbatim>\<open>INTERFACE_RESUMING_1A\<close>), a build without assertions
  (\<^verbatim>\<open>NDEBUG\<close>) stores back the state it has read, calls no hook and calls the
  registered callback, if any, with \<^verbatim>\<open>SL_RESULT_INTERNAL_ERROR\<close>; a build with
  assertions stops at \<^verbatim>\<open>assert(SL_BOOLEAN_FALSE)\<close> holding the mutex, and all it has
  done by then is to take the mutex: it has stored nothing in the slot, called no hook
  and no callback.
\<close>

theorem handlers_unexpected_state:
  assumes "self \<noteq> 0" and "mThis s \<noteq> 0" and "0 \<le> MPH" and "MPH < MPH_MAX ext"
    and "declared s MPH i" and "mutex s = 0"
  shows
    "(mInterfaceStates s ! i \<noteq> INTERFACE_ADDING_1
        \<and> mInterfaceStates s ! i \<noteq> INTERFACE_ADDING_1A \<longrightarrow>
      HandleAdd ext self MPH s =
        (if NDEBUG ext
         then Inr (s\<lparr>trace := trace s @
                 [(1, Lock), (1, Store_state i (mInterfaceStates s ! i)), (0, Unlock)] @
                 (if mCallback s \<noteq> 0
                  then [(0, Callback (mCallback s) self (mContext s)
                              SL_DYNAMIC_ITF_EVENT_ASYNC_TERMINATION SL_RESULT_INTERNAL_ERROR MPH)]
                  else [])\<rparr>)
         else Inl (Assertion_failed (s\<lparr>mutex := 1, trace := trace s @ [(1, Lock)]\<rparr>))))
     \<and> (mInterfaceStates s ! i \<noteq> INTERFACE_RESUMING_1
        \<and> mInterfaceStates s ! i \<noteq> INTERFACE_RESUMING_1A \<longrightarrow>
      HandleResume ext self MPH s =
        (if NDEBUG ext
         then Inr (s\<lparr>trace := trace s @
                 [(1, Lock), (1, Store_state i (mInterfaceStates s ! i)), (0, Unlock)] @
                 (if mCallback s \<noteq> 0
                  then [(0, Callback (mCallback s) self (mContext s)
                              SL_DYNAMIC_ITF_EVENT_ASYNC_TERMINATION SL_RESULT_INTERNAL_ERROR MPH)]
                  else [])\<rparr>)
         else Inl (Assertion_failed (s\<lparr>mutex := 1, trace := trace s @ [(1, Lock)]\<rparr>))))"
proof (intro conjI impI)
  assume "mInterfaceStates s ! i \<noteq> INTERFACE_ADDING_1
    \<and> mInterfaceStates s ! i \<noteq> INTERFACE_ADDING_1A"
  with assms show "HandleAdd ext self MPH s =
        (if NDEBUG ext
         then Inr (s\<lparr>trace := trace s @
                 [(1, Lock), (1, Store_state i (mInterfaceStates s ! i)), (0, Unlock)] @
                 (if mCallback s \<noteq> 0
                  then [(0, Callback (mCallback s) self (mContext s)
                              SL_DYNAMIC_ITF_EVENT_ASYNC_TERMINATION SL_RESULT_INTERNAL_ERROR MPH)]
                  else [])\<rparr>)
         else Inl (Assertion_failed (s\<lparr>mutex := 1, trace := trace s @ [(1, Lock)]\<rparr>)))"
    unfolding HandleAdd_def Let_def declared_def
    by (cases "mInterfaceStates s ! i"; simp add: steps list_update_same)
next
  assume "mInterfaceStates s ! i \<noteq> INTERFACE_RESUMING_1
    \<and> mInterfaceStates s ! i \<noteq> INTERFACE_RESUMING_1A"
  with assms show "HandleResume ext self MPH s =
        (if NDEBUG ext
         then Inr (s\<lparr>trace := trace s @
                 [(1, Lock), (1, Store_state i (mInterfaceStates s ! i)), (0, Unlock)] @
                 (if mCallback s \<noteq> 0
                  then [(0, Callback (mCallback s) self (mContext s)
                              SL_DYNAMIC_ITF_EVENT_ASYNC_TERMINATION SL_RESULT_INTERNAL_ERROR MPH)]
                  else [])\<rparr>)
         else Inl (Assertion_failed (s\<lparr>mutex := 1, trace := trace s @ [(1, Lock)]\<rparr>)))"
    unfolding HandleResume_def Let_def declared_def
    by (cases "mInterfaceStates s ! i"; simp add: steps list_update_same)
qed

theorem handlers_unexpected_state_witness:
  "(0x1040 :: 32 word) \<noteq> 0 \<and> mThis (example_world INTERFACE_ADDED) \<noteq> 0
   \<and> (0::int) \<le> 7 \<and> 7 < MPH_MAX (example_ext True SL_RESULT_SUCCESS INTERFACE_ADDED)
   \<and> declared (example_world INTERFACE_ADDED) 7 2
   \<and> mutex (example_world INTERFACE_ADDED) = 0
   \<and> mInterfaceStates (example_world INTERFACE_ADDED) ! 2 = INTERFACE_ADDED
   \<and> HandleAdd (example_ext True SL_RESULT_SUCCESS INTERFACE_ADDED) 0x1040 7
        (example_world INTERFACE_ADDED) =
      Inr ((example_world INTERFACE_ADDED)
            \<lparr>trace :=
               [(1, Lock), (1, Store_state 2 INTERFACE_ADDED), (0, Unlock),
                (0, Callback 0x9000 0x1040 0x9100
                      SL_DYNAMIC_ITF_EVENT_ASYNC_TERMINATION SL_RESULT_INTERNAL_ERROR 7)]\<rparr>)
   \<and> HandleResume (example_ext True SL_RESULT_SUCCESS INTERFACE_ADDED) 0x1040 7
        (example_world INTERFACE_ADDED) =
      Inr ((example_world INTERFACE_ADDED)
            \<lparr>trace :=
               [(1, Lock), (1, Store_state 2 INTERFACE_ADDED), (0, Unlock),
                (0, Callback 0x9000 0x1040 0x9100
                      SL_DYNAMIC_ITF_EVENT_ASYNC_TERMINATION SL_RESULT_INTERNAL_ERROR 7)]\<rparr>)
   \<and> 7 < MPH_MAX (example_ext False SL_RESULT_SUCCESS INTERFACE_ADDED)
   \<and> HandleAdd (example_ext False SL_RESULT_SUCCESS INTERFACE_ADDED) 0x1040 7
        (example_world INTERFACE_ADDED) =
      Inl (Assertion_failed
            ((example_world INTERFACE_ADDED)\<lparr>mutex := 1, trace := [(1, Lock)]\<rparr>))
   \<and> HandleResume (example_ext False SL_RESULT_SUCCESS INTERFACE_ADDED) 0x1040 7
        (example_world INTERFACE_ADDED) =
      Inl (Assertion_failed
            ((example_world INTERFACE_ADDED)\<lparr>mutex := 1, trace := [(1, Lock)]\<rparr>))"
  using
    handlers_unexpected_state [where self = "0x1040" and s = "example_world INTERFACE_ADDED"
      and MPH = 7 and ext = "example_ext True SL_RESULT_SUCCESS INTERFACE_ADDED" and i = 2]
    handlers_unexpected_state [where self = "0x1040" and s = "example_world INTERFACE_ADDED"
      and MPH = 7 and ext = "example_ext False SL_RESULT_SUCCESS INTERFACE_ADDED" and i = 2]
  by (simp add: examples)

text \<open>
  C10 as stated fails in a build with assertions: the handler, finding the slot in
  \<^verbatim>\<open>INTERFACE_ADDED\<close>, stops at the assertion: it has taken the mutex and done nothing
  else, and the registered callback is not called.
\<close>

theorem HandleAdd_unexpected_state_aborts:
  "HandleAdd (example_ext False SL_RESULT_SUCCESS INTERFACE_ADDED) 0x1040 7
     (example_world INTERFACE_ADDED) =
   Inl (Assertion_failed ((example_world INTERFACE_ADDED)\<lparr>mutex := 1, trace := [(1, Lock)]\<rparr>))"
  unfolding HandleAdd_def Let_def
  by (simp add: steps examples)

subsection \<open>Synchronous add, remove, and their sequence\<close>



text \<open>
  C6: \<^verbatim>\<open>RemoveInterface\<close> on a slot in \<^verbatim>\<open>INTERFACE_ADDED\<close> or
  \<^verbatim>\<open>INTERFACE_SUSPENDED\<close> stores \<^verbatim>\<open>INTERFACE_REMOVING\<close>, clears the bit of the slot in
  \<^verbatim>\<open>mGottenMask\<close> (both under the mutex), calls the deinit hook if there is one with
  the mutex count 0, stores \<^verbatim>\<open>INTERFACE_UNINITIALIZED\<close> under the mutex and returns
  \<^verbatim>\<open>SL_RESULT_SUCCESS\<close>.  A build with assertions fills the region with \<open>0x55\<close> after
  the hook.  The slot is below 32, the width of \<^verbatim>\<open>mGottenMask\<close>, where
  \<^verbatim>\<open>1 << index\<close> is the bit of the slot.
\<close>

theorem RemoveInterface_normal:
  assumes "resolves ext s iid MPH i"
    and "mInterfaceStates s ! i = INTERFACE_ADDED \<or> mInterfaceStates s ! i = INTERFACE_SUSPENDED"
    and "mutex s = 0" and "i < 32"
  shows "\<exists>s'. IDynamicInterfaceManagement_RemoveInterface ext self iid s =
                 Inr (SL_RESULT_SUCCESS, s')
     \<and> mInterfaceStates s' ! i = INTERFACE_UNINITIALIZED
     \<and> \<not> bit (mGottenMask s') i
     \<and> s' = s\<lparr>mInterfaceStates := (mInterfaceStates s)[i := INTERFACE_UNINITIALIZED],
           mGottenMask := mGottenMask s AND NOT (push_bit i 1),
           trace := trace s @
             [(1, Lock), (1, Store_state i INTERFACE_REMOVING),
              (1, Store_mask (mGottenMask s AND NOT (push_bit i 1))), (0, Unlock)] @
             (if mDeinit (MPH_init_table ext MPH) \<noteq> 0
              then [(0, Hook (mDeinit (MPH_init_table ext MPH))
                          (mThis s + mOffset (mInterfaces (mClass s) ! i)))]
              else []) @
             (if NDEBUG ext then []
              else [(0, Memset (mThis s + mOffset (mInterfaces (mClass s) ! i)) 0x55
                          (itf_size (mClass s) i))]) @
             [(1, Lock), (1, Store_state i INTERFACE_UNINITIALIZED), (0, Unlock)]\<rparr>"
proof -
  have "i < length (mInterfaceStates s)"
    using assms(1) by (simp add: resolves_def declared_def)
  then show ?thesis
    using RemoveInterface_run [OF assms, of self] gotten_bit_cleared [of "mGottenMask s" i]
    by simp
qed

theorem RemoveInterface_normal_witness:
  "resolves (example_ext False SL_RESULT_SUCCESS INTERFACE_ADDED)
     (example_world INTERFACE_SUSPENDED) 0x5007 7 2
   \<and> (mInterfaceStates (example_world INTERFACE_SUSPENDED) ! 2 = INTERFACE_ADDED
      \<or> mInterfaceStates (example_world INTERFACE_SUSPENDED) ! 2 = INTERFACE_SUSPENDED)
   \<and> mutex (example_world INTERFACE_SUSPENDED) = 0
   \<and> (2::nat) < 32
   \<and> bit (mGottenMask (example_world INTERFACE_SUSPENDED)) (2::nat)
   \<and> IDynamicInterfaceManagement_RemoveInterface
        (example_ext False SL_RESULT_SUCCESS INTERFACE_ADDED) 0x1040 0x5007
        (example_world INTERFACE_SUSPENDED) =
      Inr (SL_RESULT_SUCCESS,
           (example_world INTERFACE_UNINITIALIZED)
             \<lparr>mGottenMask := 3,
              trace :=
                [(1, Lock), (1, Store_state 2 INTERFACE_REMOVING), (1, Store_mask 3),
                 (0, Unlock), (0, Hook 0x7003 0x1060), (0, Memset 0x1060 0x55 64),
                 (1, Lock), (1, Store_state 2 INTERFACE_UNINITIALIZED), (0, Unlock)]\<rparr>)"
  using RemoveInterface_normal [where ext = "example_ext False SL_RESULT_SUCCESS INTERFACE_ADDED"
      and s = "example_world INTERFACE_SUSPENDED" and iid = "0x5007" and MPH = 7 and i = 2
      and self = "0x1040"]
  by (simp add: examples)

text \<open>
  C9: from a slot in \<^verbatim>\<open>INTERFACE_UNINITIALIZED\<close>, whatever \<^verbatim>\<open>mGottenMask\<close> holds, a
  synchronous \<^verbatim>\<open>AddInterface\<close>, then \<^verbatim>\<open>RemoveInterface\<close>, then a synchronous
  \<^verbatim>\<open>AddInterface\<close> of the same identifier all return \<^verbatim>\<open>SL_RESULT_SUCCESS\<close> and end
  with the slot in \<^verbatim>\<open>INTERFACE_ADDED\<close> and its bit of \<^verbatim>\<open>mGottenMask\<close> clear.  The
  slot is below 32, the width of \<^verbatim>\<open>mGottenMask\<close>.
\<close>

theorem add_remove_add:
  assumes "resolves ext s iid MPH i" and "mInterfaceStates s ! i = INTERFACE_UNINITIALIZED"
    and "mutex s = 0" and "i < 32"
  shows "\<exists>s1 s2 s3.
       IDynamicInterfaceManagement_AddInterface ext self iid False s = Inr (SL_RESULT_SUCCESS, s1)
     \<and> IDynamicInterfaceManagement_RemoveInterface ext self iid s1 = Inr (SL_RESULT_SUCCESS, s2)
     \<and> IDynamicInterfaceManagement_AddInterface ext self iid False s2 = Inr (SL_RESULT_SUCCESS, s3)
     \<and> mInterfaceStates s3 ! i = INTERFACE_ADDED
     \<and> \<not> bit (mGottenMask s3) i
     \<and> mGottenMask s3 = mGottenMask s AND NOT (push_bit i 1)
     \<and> mutex s3 = 0"
proof -
  have len: "i < length (mInterfaceStates s)"
    using assms(1) by (simp add: resolves_def declared_def)
  obtain s1 where
    run1: "IDynamicInterfaceManagement_AddInterface ext self iid False s = Inr (SL_RESULT_SUCCESS, s1)"
    and st1: "mInterfaceStates s1 = (mInterfaceStates s)[i := INTERFACE_ADDED]"
    and same1: "mClass s1 = mClass s" "mGottenMask s1 = mGottenMask s" "mutex s1 = 0"
    using AddInterface_sync_run [OF assms(1-3), of self] assms(3) by simp
  have ok1: "resolves ext s1 iid MPH i"
    using assms(1) st1 same1 by (simp add: resolves_def declared_def)
  have added1: "mInterfaceStates s1 ! i = INTERFACE_ADDED \<or> mInterfaceStates s1 ! i = INTERFACE_SUSPENDED"
    using st1 len by simp
  obtain s2 where
    run2: "IDynamicInterfaceManagement_RemoveInterface ext self iid s1 = Inr (SL_RESULT_SUCCESS, s2)"
    and st2: "mInterfaceStates s2 = (mInterfaceStates s1)[i := INTERFACE_UNINITIALIZED]"
    and same2: "mClass s2 = mClass s1" "mutex s2 = 0"
    and mask2: "mGottenMask s2 = mGottenMask s1 AND NOT (push_bit i 1)"
    using RemoveInterface_run [OF ok1 added1 same1(3) assms(4), of self] same1(3) by simp
  have ok2: "resolves ext s2 iid MPH i"
    using ok1 st2 same2 by (simp add: resolves_def declared_def)
  have uninit2: "mInterfaceStates s2 ! i = INTERFACE_UNINITIALIZED"
    using st2 st1 len by simp
  obtain s3 where
    run3: "IDynamicInterfaceManagement_AddInterface ext self iid False s2 = Inr (SL_RESULT_SUCCESS, s3)"
    and st3: "mInterfaceStates s3 = (mInterfaceStates s2)[i := INTERFACE_ADDED]"
    and same3: "mGottenMask s3 = mGottenMask s2" "mutex s3 = 0"
    using AddInterface_sync_run [OF ok2 uninit2 same2(2), of self] same2(2) by simp
  have "mInterfaceStates s3 ! i = INTERFACE_ADDED"
    using st3 st2 st1 len by simp
  moreover have "mGottenMask s3 = mGottenMask s AND NOT (push_bit i 1)"
    using same3(1) mask2 same1(2) by simp
  moreover have "\<not> bit (mGottenMask s3) i"
    using same3(1) mask2 gotten_bit_cleared [of "mGottenMask s1" i] by simp
  ultimately show ?thesis
    using run1 run2 run3 same3(2) by blast
qed

theorem add_remove_add_witness:
  "resolves (example_ext False SL_RESULT_SUCCESS INTERFACE_ADDED)
     (example_world INTERFACE_UNINITIALIZED) 0x5007 7 2
   \<and> mInterfaceStates (example_world INTERFACE_UNINITIALIZED) ! 2 = INTERFACE_UNINITIALIZED
   \<and> mutex (example_world INTERFACE_UNINITIALIZED) = 0
   \<and> (2::nat) < 32
   \<and> bit (mGottenMask (example_world INTERFACE_UNINITIALIZED)) (2::nat)
   \<and> (\<exists>s1 s2 s3.
       IDynamicInterfaceManagement_AddInterface (example_ext False SL_RESULT_SUCCESS INTERFACE_ADDED)
         0x1040 0x5007 False (example_world INTERFACE_UNINITIALIZED) = Inr (SL_RESULT_SUCCESS, s1)
     \<and> IDynamicInterfaceManagement_RemoveInterface
         (example_ext False SL_RESULT_SUCCESS INTERFACE_ADDED) 0x1040 0x5007 s1
         = Inr (SL_RESULT_SUCCESS, s2)
     \<and> IDynamicInterfaceManagement_AddInterface (example_ext False SL_RESULT_SUCCESS INTERFACE_ADDED)
         0x1040 0x5007 False s2 = Inr (SL_RESULT_SUCCESS, s3)
     \<and> mInterfaceStates s3 ! 2 = INTERFACE_ADDED
     \<and> \<not> bit (mGottenMask s3) (2::nat)
     \<and> mGottenMask s3 = 3
     \<and> mutex s3 = 0)"
proof -
  have h1: "resolves (example_ext False SL_RESULT_SUCCESS INTERFACE_ADDED)
     (example_world INTERFACE_UNINITIALIZED) 0x5007 7 2"
    by (simp add: examples)
  have h2: "mInterfaceStates (example_world INTERFACE_UNINITIALIZED) ! 2 = INTERFACE_UNINITIALIZED"
    by (simp add: examples)
  have h3: "mutex (example_world INTERFACE_UNINITIALIZED) = 0"
    by (simp add: examples)
  have h4: "bit (mGottenMask (example_world INTERFACE_UNINITIALIZED)) (2::nat)"
    by (simp add: examples)
  have m: "mGottenMask (example_world INTERFACE_UNINITIALIZED) AND NOT (push_bit 2 1) = 3"
    by (simp add: examples)
  have h5: "(2::nat) < 32"
    by simp
  show ?thesis
    using h1 h2 h3 h4 h5 add_remove_add [OF h1 h2 h3 h5, of "0x1040"] unfolding m by simp
qed

subsection \<open>Identifiers the class does not declare\<close>

text \<open>
  C7: for an identifier that is not null and does not resolve to a slot of the class
  (the library does not know it, or the class has no entry for it),
  \<^verbatim>\<open>AddInterface\<close> returns \<^verbatim>\<open>SL_RESULT_FEATURE_UNSUPPORTED\<close>, \<^verbatim>\<open>RemoveInterface\<close>
  and \<^verbatim>\<open>ResumeInterface\<close> return \<^verbatim>\<open>SL_RESULT_PRECONDITIONS_VIOLATED\<close>, and the world
  is as before: no field is written, the mutex is not taken, nothing is called.
\<close>

theorem unresolved_identifier:
  assumes "iid \<noteq> 0"
    and "IID_to_MPH ext iid < 0 \<or> mMPH_to_index (mClass s) (IID_to_MPH ext iid) < 0"
  shows "IDynamicInterfaceManagement_AddInterface ext self iid async s =
           Inr (SL_RESULT_FEATURE_UNSUPPORTED, s)
     \<and> IDynamicInterfaceManagement_RemoveInterface ext self iid s =
           Inr (SL_RESULT_PRECONDITIONS_VIOLATED, s)
     \<and> IDynamicInterfaceManagement_ResumeInterface ext self iid async s =
           Inr (SL_RESULT_PRECONDITIONS_VIOLATED, s)"
  using assms
  unfolding IDynamicInterfaceManagement_AddInterface_def
    IDynamicInterfaceManagement_RemoveInterface_def
    IDynamicInterfaceManagement_ResumeInterface_def
  by (simp add: Let_def)

text \<open>
  The identifier \<open>0x5009\<close> is known to the library and not declared by the class; the
  identifier \<open>0x6000\<close> is not known to the library.
\<close>

theorem unresolved_identifier_witness:
  "(0x5009 :: 32 word) \<noteq> 0
   \<and> mMPH_to_index (mClass (example_world INTERFACE_ADDED))
        (IID_to_MPH (example_ext False SL_RESULT_SUCCESS INTERFACE_ADDED) 0x5009) < 0
   \<and> IDynamicInterfaceManagement_AddInterface (example_ext False SL_RESULT_SUCCESS INTERFACE_ADDED)
        0x1040 0x5009 False (example_world INTERFACE_ADDED) =
      Inr (SL_RESULT_FEATURE_UNSUPPORTED, example_world INTERFACE_ADDED)
   \<and> IDynamicInterfaceManagement_RemoveInterface
        (example_ext False SL_RESULT_SUCCESS INTERFACE_ADDED)
        0x1040 0x5009 (example_world INTERFACE_ADDED) =
      Inr (SL_RESULT_PRECONDITIONS_VIOLATED, example_world INTERFACE_ADDED)
   \<and> IDynamicInterfaceManagement_ResumeInterface
        (example_ext False SL_RESULT_SUCCESS INTERFACE_ADDED)
        0x1040 0x5009 False (example_world INTERFACE_ADDED) =
      Inr (SL_RESULT_PRECONDITIONS_VIOLATED, example_world INTERFACE_ADDED)
   \<and> (0x6000 :: 32 word) \<noteq> 0
   \<and> IID_to_MPH (example_ext False SL_RESULT_SUCCESS INTERFACE_ADDED) 0x6000 < 0
   \<and> IDynamicInterfaceManagement_AddInterface (example_ext False SL_RESULT_SUCCESS INTERFACE_ADDED)
        0x1040 0x6000 True (example_world INTERFACE_UNINITIALIZED) =
      Inr (SL_RESULT_FEATURE_UNSUPPORTED, example_world INTERFACE_UNINITIALIZED)
   \<and> IDynamicInterfaceManagement_RemoveInterface
        (example_ext False SL_RESULT_SUCCESS INTERFACE_ADDED)
        0x1040 0x6000 (example_world INTERFACE_UNINITIALIZED) =
      Inr (SL_RESULT_PRECONDITIONS_VIOLATED, example_world INTERFACE_UNINITIALIZED)
   \<and> IDynamicInterfaceManagement_ResumeInterface
        (example_ext False SL_RESULT_SUCCESS INTERFACE_ADDED)
        0x1040 0x6000 True (example_world INTERFACE_UNINITIALIZED) =
      Inr (SL_RESULT_PRECONDITIONS_VIOLATED, example_world INTERFACE_UNINITIALIZED)"
proof -
  have h1: "(0x5009 :: 32 word) \<noteq> 0"
    by simp
  have h2: "mMPH_to_index (mClass (example_world INTERFACE_ADDED))
        (IID_to_MPH (example_ext False SL_RESULT_SUCCESS INTERFACE_ADDED) 0x5009) < 0"
    by (simp add: examples)
  have k1: "(0x6000 :: 32 word) \<noteq> 0"
    by simp
  have k2: "IID_to_MPH (example_ext False SL_RESULT_SUCCESS INTERFACE_ADDED) 0x6000 < 0"
    by (simp add: examples)
  show ?thesis
    using h1 h2 k1 k2
      unresolved_identifier [OF h1 disjI2, OF h2, of "0x1040" False]
      unresolved_identifier [OF k1 disjI1, OF k2, of "0x1040" True "example_world INTERFACE_UNINITIALIZED"]
    by simp
qed

subsection \<open>The thread pool refuses the task\<close>

text \<open>
  C4: when \<^verbatim>\<open>ThreadPool_add\<close> fails in an asynchronous \<^verbatim>\<open>AddInterface\<close>
  (\<^verbatim>\<open>ResumeInterface\<close>), the operation takes the mutex again and looks at the slot as
  the other threads have left it (\<open>sts ! i\<close>): it stores \<^verbatim>\<open>INTERFACE_UNINITIALIZED\<close>
  (\<^verbatim>\<open>INTERFACE_SUSPENDED\<close>) exactly when the slot is in \<^verbatim>\<open>INTERFACE_ADDING_1\<close> or
  \<^verbatim>\<open>INTERFACE_ADDING_1A\<close> (\<^verbatim>\<open>INTERFACE_RESUMING_1\<close> or \<^verbatim>\<open>INTERFACE_RESUMING_1A\<close>) and
  stores nothing otherwise; it returns the result of \<^verbatim>\<open>ThreadPool_add\<close> and calls
  no callback.
\<close>

theorem enqueue_failure:
  assumes "resolves ext s iid MPH i" and "mutex s = 0" and "r \<noteq> SL_RESULT_SUCCESS"
  shows
    "(mInterfaceStates s ! i = INTERFACE_UNINITIALIZED
        \<and> ThreadPool_add ext Handler_HandleAdd self MPH
             ((mInterfaceStates s)[i := INTERFACE_ADDING_1]) = (r, sts) \<longrightarrow>
      IDynamicInterfaceManagement_AddInterface ext self iid True s =
        Inr (r, s\<lparr>mInterfaceStates :=
                    (if sts ! i = INTERFACE_ADDING_1 \<or> sts ! i = INTERFACE_ADDING_1A
                     then sts[i := INTERFACE_UNINITIALIZED] else sts),
                  trace := trace s @
                    [(1, Lock), (1, Store_state i INTERFACE_ADDING_1), (0, Unlock),
                     (0, Pool_add Handler_HandleAdd self MPH r), (1, Lock)] @
                    (if sts ! i = INTERFACE_ADDING_1 \<or> sts ! i = INTERFACE_ADDING_1A
                     then [(1, Store_state i INTERFACE_UNINITIALIZED)] else []) @
                    [(0, Unlock)]\<rparr>))
     \<and> (mInterfaceStates s ! i = INTERFACE_SUSPENDED
        \<and> ThreadPool_add ext Handler_HandleResume self MPH
             ((mInterfaceStates s)[i := INTERFACE_RESUMING_1]) = (r, sts) \<longrightarrow>
      IDynamicInterfaceManagement_ResumeInterface ext self iid True s =
        Inr (r, s\<lparr>mInterfaceStates :=
                    (if sts ! i = INTERFACE_RESUMING_1 \<or> sts ! i = INTERFACE_RESUMING_1A
                     then sts[i := INTERFACE_SUSPENDED] else sts),
                  trace := trace s @
                    [(1, Lock), (1, Store_state i INTERFACE_RESUMING_1), (0, Unlock),
                     (0, Pool_add Handler_HandleResume self MPH r), (1, Lock)] @
                    (if sts ! i = INTERFACE_RESUMING_1 \<or> sts ! i = INTERFACE_RESUMING_1A
                     then [(1, Store_state i INTERFACE_SUSPENDED)] else []) @
                    [(0, Unlock)]\<rparr>))"
proof (intro conjI impI)
  assume "mInterfaceStates s ! i = INTERFACE_UNINITIALIZED
    \<and> ThreadPool_add ext Handler_HandleAdd self MPH
         ((mInterfaceStates s)[i := INTERFACE_ADDING_1]) = (r, sts)"
  with assms show "IDynamicInterfaceManagement_AddInterface ext self iid True s =
        Inr (r, s\<lparr>mInterfaceStates :=
                    (if sts ! i = INTERFACE_ADDING_1 \<or> sts ! i = INTERFACE_ADDING_1A
                     then sts[i := INTERFACE_UNINITIALIZED] else sts),
                  trace := trace s @
                    [(1, Lock), (1, Store_state i INTERFACE_ADDING_1), (0, Unlock),
                     (0, Pool_add Handler_HandleAdd self MPH r), (1, Lock)] @
                    (if sts ! i = INTERFACE_ADDING_1 \<or> sts ! i = INTERFACE_ADDING_1A
                     then [(1, Store_state i INTERFACE_UNINITIALIZED)] else []) @
                    [(0, Unlock)]\<rparr>)"
    unfolding IDynamicInterfaceManagement_AddInterface_def Let_def resolves_def declared_def
    by (cases "sts ! i"; simp add: steps)
next
  assume "mInterfaceStates s ! i = INTERFACE_SUSPENDED
    \<and> ThreadPool_add ext Handler_HandleResume self MPH
         ((mInterfaceStates s)[i := INTERFACE_RESUMING_1]) = (r, sts)"
  with assms show "IDynamicInterfaceManagement_ResumeInterface ext self iid True s =
        Inr (r, s\<lparr>mInterfaceStates :=
                    (if sts ! i = INTERFACE_RESUMING_1 \<or> sts ! i = INTERFACE_RESUMING_1A
                     then sts[i := INTERFACE_SUSPENDED] else sts),
                  trace := trace s @
                    [(1, Lock), (1, Store_state i INTERFACE_RESUMING_1), (0, Unlock),
                     (0, Pool_add Handler_HandleResume self MPH r), (1, Lock)] @
                    (if sts ! i = INTERFACE_RESUMING_1 \<or> sts ! i = INTERFACE_RESUMING_1A
                     then [(1, Store_state i INTERFACE_SUSPENDED)] else []) @
                    [(0, Unlock)]\<rparr>)"
    unfolding IDynamicInterfaceManagement_ResumeInterface_def Let_def resolves_def declared_def
    by (cases "sts ! i"; simp add: steps)
qed

text \<open>
  Three runs with a pool that answers \<^verbatim>\<open>SL_RESULT_MEMORY_FAILURE\<close>: an add cancelled in
  the window (\<^verbatim>\<open>INTERFACE_ADDING_1A\<close>) is reverted, an add whose slot another thread
  has moved to \<^verbatim>\<open>INTERFACE_ADDED\<close> is left alone, a resume still in
  \<^verbatim>\<open>INTERFACE_RESUMING_1\<close> is reverted.
\<close>

theorem enqueue_failure_witness:
  "IDynamicInterfaceManagement_AddInterface
      (example_ext False SL_RESULT_MEMORY_FAILURE INTERFACE_ADDING_1A) 0x1040 0x5007 True
      (example_world INTERFACE_UNINITIALIZED) =
    Inr (SL_RESULT_MEMORY_FAILURE,
         (example_world INTERFACE_UNINITIALIZED)
           \<lparr>trace :=
              [(1, Lock), (1, Store_state 2 INTERFACE_ADDING_1), (0, Unlock),
               (0, Pool_add Handler_HandleAdd 0x1040 7 SL_RESULT_MEMORY_FAILURE), (1, Lock),
               (1, Store_state 2 INTERFACE_UNINITIALIZED), (0, Unlock)]\<rparr>)
   \<and> IDynamicInterfaceManagement_AddInterface
      (example_ext False SL_RESULT_MEMORY_FAILURE INTERFACE_ADDED) 0x1040 0x5007 True
      (example_world INTERFACE_UNINITIALIZED) =
    Inr (SL_RESULT_MEMORY_FAILURE,
         (example_world INTERFACE_ADDED)
           \<lparr>trace :=
              [(1, Lock), (1, Store_state 2 INTERFACE_ADDING_1), (0, Unlock),
               (0, Pool_add Handler_HandleAdd 0x1040 7 SL_RESULT_MEMORY_FAILURE), (1, Lock),
               (0, Unlock)]\<rparr>)
   \<and> IDynamicInterfaceManagement_ResumeInterface
      (example_ext False SL_RESULT_MEMORY_FAILURE INTERFACE_RESUMING_1) 0x1040 0x5007 True
      (example_world INTERFACE_SUSPENDED) =
    Inr (SL_RESULT_MEMORY_FAILURE,
         (example_world INTERFACE_SUSPENDED)
           \<lparr>trace :=
              [(1, Lock), (1, Store_state 2 INTERFACE_RESUMING_1), (0, Unlock),
               (0, Pool_add Handler_HandleResume 0x1040 7 SL_RESULT_MEMORY_FAILURE), (1, Lock),
               (1, Store_state 2 INTERFACE_SUSPENDED), (0, Unlock)]\<rparr>)"
  using
    enqueue_failure [where ext = "example_ext False SL_RESULT_MEMORY_FAILURE INTERFACE_ADDING_1A"
      and s = "example_world INTERFACE_UNINITIALIZED" and iid = "0x5007" and MPH = 7 and i = 2
      and r = SL_RESULT_MEMORY_FAILURE and self = "0x1040"
      and sts = "[INTERFACE_ADDED, INTERFACE_ADDED, INTERFACE_ADDING_1A]"]
    enqueue_failure [where ext = "example_ext False SL_RESULT_MEMORY_FAILURE INTERFACE_ADDED"
      and s = "example_world INTERFACE_UNINITIALIZED" and iid = "0x5007" and MPH = 7 and i = 2
      and r = SL_RESULT_MEMORY_FAILURE and self = "0x1040"
      and sts = "[INTERFACE_ADDED, INTERFACE_ADDED, INTERFACE_ADDED]"]
    enqueue_failure [where ext = "example_ext False SL_RESULT_MEMORY_FAILURE INTERFACE_RESUMING_1"
      and s = "example_world INTERFACE_SUSPENDED" and iid = "0x5007" and MPH = 7 and i = 2
      and r = SL_RESULT_MEMORY_FAILURE and self = "0x1040"
      and sts = "[INTERFACE_ADDED, INTERFACE_ADDED, INTERFACE_RESUMING_1]"]
  by (simp add: examples)

subsection \<open>Two places where the code departs from its siblings\<close>

text \<open>
  C1: a synchronous \<^verbatim>\<open>ResumeInterface\<close> on a slot in \<^verbatim>\<open>INTERFACE_SUSPENDED\<close> stores
  \<^verbatim>\<open>INTERFACE_ADDED\<close> and returns \<^verbatim>\<open>SL_RESULT_SUCCESS\<close>, but it calls the resume hook
  on \<^verbatim>\<open>(char *) this + offset\<close>, from the address of the management structure, where
  \<^verbatim>\<open>HandleResume\<close>, \<^verbatim>\<open>HandleAdd\<close>, \<^verbatim>\<open>AddInterface\<close> and \<^verbatim>\<open>RemoveInterface\<close> take
  \<^verbatim>\<open>(char *) thisObject + offset\<close>.  In the object at \<open>0x1000\<close>, with the management
  structure at \<open>0x1040\<close>, the hook of the interface at offset 96 is called on \<open>0x10A0\<close>;
  the region of the interface is at \<open>0x1060\<close>, where \<^verbatim>\<open>HandleResume\<close> calls it.
\<close>

theorem ResumeInterface_sync_hook_address:
  "IDynamicInterfaceManagement_ResumeInterface
      (example_ext False SL_RESULT_SUCCESS INTERFACE_ADDED) 0x1040 0x5007 False
      (example_world INTERFACE_SUSPENDED) =
    Inr (SL_RESULT_SUCCESS,
         (example_world INTERFACE_ADDED)
           \<lparr>trace :=
              [(1, Lock), (1, Store_state 2 INTERFACE_RESUMING_2), (0, Unlock),
               (0, Hook 0x7002 0x10A0),
               (1, Lock), (1, Store_state 2 INTERFACE_ADDED), (0, Unlock)]\<rparr>)
   \<and> mThis (example_world INTERFACE_SUSPENDED)
        + mOffset (mInterfaces (mClass (example_world INTERFACE_SUSPENDED)) ! 2) = 0x1060
   \<and> HandleResume (example_ext False SL_RESULT_SUCCESS INTERFACE_ADDED) 0x1040 7
        (example_world INTERFACE_RESUMING_1) =
      Inr ((example_world INTERFACE_ADDED)
            \<lparr>trace :=
               [(1, Lock), (1, Store_state 2 INTERFACE_RESUMING_2), (0, Unlock),
                (0, Hook 0x7002 0x1060),
                (1, Lock), (1, Store_state 2 INTERFACE_ADDED), (0, Unlock),
                (0, Callback 0x9000 0x1040 0x9100
                      SL_DYNAMIC_ITF_EVENT_ASYNC_TERMINATION SL_RESULT_SUCCESS 7)]\<rparr>)"
proof -
  have "resolves (example_ext False SL_RESULT_SUCCESS INTERFACE_ADDED)
      (example_world INTERFACE_SUSPENDED) 0x5007 7 2"
    and "mInterfaceStates (example_world INTERFACE_SUSPENDED) ! 2 = INTERFACE_SUSPENDED"
    and "mutex (example_world INTERFACE_SUSPENDED) = 0"
    by (simp_all add: examples)
  from ResumeInterface_sync_run [OF this, of "0x1040"]
  have "IDynamicInterfaceManagement_ResumeInterface
      (example_ext False SL_RESULT_SUCCESS INTERFACE_ADDED) 0x1040 0x5007 False
      (example_world INTERFACE_SUSPENDED) =
    Inr (SL_RESULT_SUCCESS,
         (example_world INTERFACE_ADDED)
           \<lparr>trace :=
              [(1, Lock), (1, Store_state 2 INTERFACE_RESUMING_2), (0, Unlock),
               (0, Hook 0x7002 0x10A0),
               (1, Lock), (1, Store_state 2 INTERFACE_ADDED), (0, Unlock)]\<rparr>)"
    by (simp add: examples)
  moreover have "mThis (example_world INTERFACE_SUSPENDED)
        + mOffset (mInterfaces (mClass (example_world INTERFACE_SUSPENDED)) ! 2) = 0x1060"
    by (simp add: examples)
  moreover have "HandleResume (example_ext False SL_RESULT_SUCCESS INTERFACE_ADDED) 0x1040 7
        (example_world INTERFACE_RESUMING_1) =
      Inr ((example_world INTERFACE_ADDED)
            \<lparr>trace :=
               [(1, Lock), (1, Store_state 2 INTERFACE_RESUMING_2), (0, Unlock),
                (0, Hook 0x7002 0x1060),
                (1, Lock), (1, Store_state 2 INTERFACE_ADDED), (0, Unlock),
                (0, Callback 0x9000 0x1040 0x9100
                      SL_DYNAMIC_ITF_EVENT_ASYNC_TERMINATION SL_RESULT_SUCCESS 7)]\<rparr>)"
    unfolding HandleResume_def Let_def
    by (simp add: steps examples)
  ultimately show ?thesis
    by blast
qed

text \<open>
  C2: \<^verbatim>\<open>ResumeInterface\<close> on a slot that is not in \<^verbatim>\<open>INTERFACE_SUSPENDED\<close> (here
  \<^verbatim>\<open>INTERFACE_ADDED\<close>) returns \<^verbatim>\<open>SL_RESULT_PRECONDITIONS_VIOLATED\<close> and writes no
  field, but it calls \<^verbatim>\<open>object_unlock_exclusive\<close> twice for one
  \<^verbatim>\<open>object_lock_exclusive\<close>: the count of the mutex ends at \<open>- 1\<close>.  \<^verbatim>\<open>AddInterface\<close>
  and \<^verbatim>\<open>RemoveInterface\<close> on a slot they refuse release the mutex once.
\<close>

theorem ResumeInterface_rejected_unlocks_twice:
  "IDynamicInterfaceManagement_ResumeInterface
      (example_ext False SL_RESULT_SUCCESS INTERFACE_ADDED) 0x1040 0x5007 False
      (example_world INTERFACE_ADDED) =
    Inr (SL_RESULT_PRECONDITIONS_VIOLATED,
         (example_world INTERFACE_ADDED)
           \<lparr>mutex := - 1, trace := [(1, Lock), (0, Unlock), (- 1, Unlock)]\<rparr>)
   \<and> IDynamicInterfaceManagement_AddInterface
      (example_ext False SL_RESULT_SUCCESS INTERFACE_ADDED) 0x1040 0x5007 False
      (example_world INTERFACE_ADDED) =
    Inr (SL_RESULT_PRECONDITIONS_VIOLATED,
         (example_world INTERFACE_ADDED)\<lparr>trace := [(1, Lock), (0, Unlock)]\<rparr>)
   \<and> IDynamicInterfaceManagement_RemoveInterface
      (example_ext False SL_RESULT_SUCCESS INTERFACE_ADDED) 0x1040 0x5007
      (example_world INTERFACE_UNINITIALIZED) =
    Inr (SL_RESULT_PRECONDITIONS_VIOLATED,
         (example_world INTERFACE_UNINITIALIZED)\<lparr>trace := [(1, Lock), (0, Unlock)]\<rparr>)"
proof -
  have res: "resolves (example_ext False SL_RESULT_SUCCESS INTERFACE_ADDED) (example_world st)
      0x5007 7 2" for st
    by (simp add: examples)
  have mu: "mutex (example_world st) = 0" for st
    by (simp add: examples)
  have a: "mInterfaceStates (example_world INTERFACE_ADDED) ! 2 \<noteq> INTERFACE_SUSPENDED"
    and b: "mInterfaceStates (example_world INTERFACE_ADDED) ! 2 \<noteq> INTERFACE_UNINITIALIZED"
    and c: "mInterfaceStates (example_world INTERFACE_UNINITIALIZED) ! 2 \<noteq> INTERFACE_ADDED"
    and d: "mInterfaceStates (example_world INTERFACE_UNINITIALIZED) ! 2 \<noteq> INTERFACE_SUSPENDED"
    by (simp_all add: examples)
  show ?thesis
    using ResumeInterface_rejected [OF res a mu, of "0x1040" False]
      AddInterface_rejected [OF res b mu, of "0x1040" False]
      RemoveInterface_rejected [OF res c d mu, of "0x1040"]
    by (simp add: examples)
qed

end
